theory Spec2Isabelle
  imports Complex_Main
begin

section \<open>Data model (src/types/index.ts, models/Share.ts, models/AuditLog.ts)\<close>

text \<open>
  An ObjectId is modelled by a natural number (below \<open>16 ^ 24\<close>); comparing two
  ids through \<open>toString()\<close> is equality of the ids. Where the source compares a
  string of the request with an id's \<open>toString()\<close>, the string is kept as sent (see
  \<open>ObjectId_toString\<close> and \<open>castObjectId\<close> below). A \<open>Date\<close> is its number of milliseconds since the epoch.
  An optional field that is \<open>null\<close> or \<open>undefined\<close> is \<open>None\<close>: both are falsy
  in the controllers and both match the store query \<open>{expiresAt: null}\<close>.
  The Mongoose-managed \<open>createdAt\<close>/\<open>updatedAt\<close> stamps, the free-form audit
  \<open>details\<close> and the origin metadata (\<open>ipAddress\<close>, \<open>userAgent\<close>) are not modelled.
  Of a File only the fields the share and file handlers read are kept, and a User
  is its id.
\<close>

type_synonym oid = nat
type_synonym instant = int

datatype ShareType = User | Link
datatype Permission = View | Download

datatype AuditAction =
    file_upload | file_download | file_delete | file_share_user
  | file_share_link | share_revoke | share_access | file_view

record IFile =
  file_id :: oid
  originalName :: string
  path :: string
  file_owner :: oid

record IShare =
  share_id :: oid
  share_file :: oid
  share_owner :: oid
  shareType :: ShareType
  sharedWith :: "oid option"
  shareLink :: "string option"
  permission :: Permission
  expiresAt :: "instant option"
  isActive :: bool

record IAuditLog =
  audit_user :: oid
  action :: AuditAction
  audit_file :: "oid option"
  audit_share :: "oid option"

text \<open>
  The backing store: one list per collection, in insertion order, and the next
  ObjectId the driver hands out.
\<close>

record db =
  users :: "oid list"
  files :: "IFile list"
  shares :: "IShare list"
  auditlogs :: "IAuditLog list"
  nextId :: oid

text \<open>
  What a request reads from outside the store: the clock (\<open>new Date()\<close>), the
  \<open>Date\<close> constructor on a string (\<open>None\<close> for an Invalid Date), the value
  \<open>uuidv4()\<close> returns, whether the audit collection accepts a write, and the
  \<open>FRONTEND_URL\<close> variable.
\<close>

record env =
  now :: instant
  newDate :: "string \<Rightarrow> instant option"
  uuidv4 :: string
  auditStoreUp :: bool
  FRONTEND_URL :: "string option"

datatype payload =
    NoData
  | ShareData IShare
  | FileData IFile
  | LinkData IShare string
  | AccessData IShare IFile "oid option" Permission

text \<open>
  \<open>Failure n msg\<close> is \<open>res.status(n).json({success: false, error: msg})\<close>,
  \<open>Success n msg data\<close> is \<open>res.status(n).json({success: true, message: msg, data})\<close>
  and \<open>SendFile p name\<close> is \<open>res.download(p, name)\<close>.
\<close>

datatype response =
    Failure nat string
  | Success nat string payload
  | SendFile string string

section \<open>ObjectIds as strings\<close>

text \<open>
  \<open>ObjectId_toString\<close> is \<open>_id.toString()\<close>: the 24 lower-case hexadecimal digits of
  the id. \<open>castObjectId\<close> is the cast Mongoose applies to a string standing for an
  id in a query or a new document: a string of 24 hexadecimal digits, of either
  case, is the id with that value, and any other string is a CastError (\<open>None\<close>).
\<close>

fun indexOf :: "char \<Rightarrow> string \<Rightarrow> nat option" where
  "indexOf c [] = None"
| "indexOf c (x # xs) = (if c = x then Some 0 else map_option Suc (indexOf c xs))"

definition hexDigitValue :: "char \<Rightarrow> nat option" where
  "hexDigitValue c =
     (case indexOf c ''0123456789abcdef'' of
        Some v \<Rightarrow> Some v
      | None \<Rightarrow> indexOf c ''0123456789ABCDEF'')"

fun hexValue :: "nat \<Rightarrow> string \<Rightarrow> nat option" where
  "hexValue acc [] = Some acc"
| "hexValue acc (c # cs) =
     (case hexDigitValue c of None \<Rightarrow> None | Some v \<Rightarrow> hexValue (16 * acc + v) cs)"

definition castObjectId :: "string \<Rightarrow> oid option" where
  "castObjectId s = (if length s = 24 then hexValue 0 s else None)"

fun hexString :: "nat \<Rightarrow> nat \<Rightarrow> string" where
  "hexString 0 n = []"
| "hexString (Suc k) n = hexString k (n div 16) @ [''0123456789abcdef'' ! (n mod 16)]"

definition ObjectId_toString :: "oid \<Rightarrow> string" where
  "ObjectId_toString n = hexString 24 n"

section \<open>Store primitives\<close>

text \<open>
  \<open>findOne\<close> returns the first stored document that matches, with its position:
  the position is the handle a later \<open>save()\<close> writes back through.
\<close>

fun findOneFrom :: "nat \<Rightarrow> ('a \<Rightarrow> bool) \<Rightarrow> 'a list \<Rightarrow> (nat \<times> 'a) option" where
  "findOneFrom i P [] = None"
| "findOneFrom i P (x # xs) = (if P x then Some (i, x) else findOneFrom (Suc i) P xs)"

definition findOne :: "('a \<Rightarrow> bool) \<Rightarrow> 'a list \<Rightarrow> (nat \<times> 'a) option" where
  "findOne P xs = findOneFrom 0 P xs"

definition save :: "nat \<Rightarrow> 'a \<Rightarrow> 'a list \<Rightarrow> 'a list" where
  "save i x xs = xs[i := x]"

text \<open>
  \<open>Share.create\<close>: the schema requires \<open>sharedWith\<close> on a user share, and the
  unique sparse index on \<open>shareLink\<close> rejects a token that is already stored
  (duplicate key error E11000). \<open>None\<close> is the thrown error.
\<close>

definition Share_create ::
  "db \<Rightarrow> oid \<Rightarrow> oid \<Rightarrow> ShareType \<Rightarrow> oid option \<Rightarrow> string option \<Rightarrow> Permission
     \<Rightarrow> instant option \<Rightarrow> (db \<times> IShare) option" where
  "Share_create d f ow t sw sl p ex =
     (if t = User \<and> sw = None then None
      else if sl \<noteq> None \<and> (\<exists>s \<in> set (shares d). shareLink s = sl) then None
      else
        let s = \<lparr>share_id = nextId d, share_file = f, share_owner = ow, shareType = t,
                 sharedWith = sw, shareLink = sl, permission = p, expiresAt = ex,
                 isActive = True\<rparr>
        in Some (d\<lparr>shares := shares d @ [s], nextId := Suc (nextId d)\<rparr>, s))"

section \<open>Helpers (utils/helpers.ts)\<close>

definition generateShareLink :: "env \<Rightarrow> string" where
  "generateShareLink e = filter (\<lambda>c. c \<noteq> CHR ''-'') (uuidv4 e)"

definition parseExpiration :: "env \<Rightarrow> string option \<Rightarrow> instant option" where
  "parseExpiration e expiration =
     (case expiration of
        None \<Rightarrow> None
      | Some s \<Rightarrow>
          if s = [] then None
          else (case newDate e s of
                  None \<Rightarrow> None
                | Some date \<Rightarrow> if date \<le> now e then None else Some date))"

definition isExpired :: "env \<Rightarrow> instant option \<Rightarrow> bool" where
  "isExpired e date = (case date of None \<Rightarrow> False | Some d \<Rightarrow> now e > d)"

section \<open>Share model virtuals and statics (models/Share.ts)\<close>

definition virtual_isExpired :: "env \<Rightarrow> IShare \<Rightarrow> bool" where
  "virtual_isExpired e s =
     (case expiresAt s of None \<Rightarrow> False | Some t \<Rightarrow> now e > t)"

definition virtual_isValid :: "env \<Rightarrow> IShare \<Rightarrow> bool" where
  "virtual_isValid e s =
     (if \<not> isActive s then False
      else if (case expiresAt s of None \<Rightarrow> False | Some t \<Rightarrow> now e > t) then False
      else True)"

text \<open>
  The store filter \<open>$or: [{expiresAt: null}, {expiresAt: {$gt: new Date()}}]\<close>.
\<close>

definition unexpiredQuery :: "env \<Rightarrow> IShare \<Rightarrow> bool" where
  "unexpiredQuery e s =
     (expiresAt s = None \<or> (case expiresAt s of None \<Rightarrow> False | Some t \<Rightarrow> t > now e))"

definition findValidShareForUser :: "env \<Rightarrow> db \<Rightarrow> oid \<Rightarrow> oid \<Rightarrow> (nat \<times> IShare) option" where
  "findValidShareForUser e d fileId userId =
     findOne (\<lambda>s. share_file s = fileId \<and> shareType s = User \<and> sharedWith s = Some userId
                   \<and> isActive s \<and> unexpiredQuery e s) (shares d)"

definition findValidShareByLink :: "env \<Rightarrow> db \<Rightarrow> string \<Rightarrow> (nat \<times> IShare) option" where
  "findValidShareByLink e d tok =
     findOne (\<lambda>s. shareLink s = Some tok \<and> shareType s = Link
                   \<and> isActive s \<and> unexpiredQuery e s) (shares d)"

section \<open>Audit sink (services/auditService.ts)\<close>

text \<open>
  \<open>logAudit\<close> swallows a failed write: the store is returned unchanged.
\<close>

definition logAudit :: "env \<Rightarrow> db \<Rightarrow> oid \<Rightarrow> AuditAction \<Rightarrow> oid option \<Rightarrow> oid option \<Rightarrow> db" where
  "logAudit e d userId act fileId shareId =
     (if auditStoreUp e
      then d\<lparr>auditlogs := auditlogs d @
              [\<lparr>audit_user = userId, action = act, audit_file = fileId, audit_share = shareId\<rparr>]\<rparr>
      else d)"

section \<open>Lookups by reference\<close>

definition findById :: "('a \<Rightarrow> oid) \<Rightarrow> oid \<Rightarrow> 'a list \<Rightarrow> (nat \<times> 'a) option" where
  "findById idOf i xs = findOne (\<lambda>x. idOf x = i) xs"

text \<open>
  \<open>populate\<close> replaces a reference by the referenced document, or by \<open>null\<close>
  when no such document is stored.
\<close>

definition populateUser :: "db \<Rightarrow> oid \<Rightarrow> oid option" where
  "populateUser d u = (if u \<in> set (users d) then Some u else None)"

definition populateFile :: "db \<Rightarrow> oid \<Rightarrow> IFile option" where
  "populateFile d f = map_option snd (findById file_id f (files d))"

section \<open>Share controller (controllers/shareController.ts)\<close>

text \<open>
  Every handler takes the authenticated user (\<open>req.user\<close>) and its parameters, and
  returns the store after the request with the response sent. \<open>errors\<close> is the
  list \<open>validationResult(req)\<close> reports. An exception inside a handler is caught
  by its \<open>catch\<close> block, which answers 500.

  \<open>shareWithUser\<close> is split where the source awaits the store: the reads up to
  \<open>Share.findOne\<close>, then the write (\<open>save\<close> or \<open>Share.create\<close>) and the audit.
  Its \<open>userId\<close> is the string of the request body: the self-share guard compares
  that string with the user's \<open>_id.toString()\<close>, and the query and the new
  document hold its cast to an ObjectId (a string that does not cast makes
  \<open>Share.findOne\<close> throw).
\<close>

definition shareWithUser_find ::
  "db \<Rightarrow> string list \<Rightarrow> oid option \<Rightarrow> oid \<Rightarrow> string
     \<Rightarrow> response + (oid \<times> oid \<times> (nat \<times> IShare) option)" where
  "shareWithUser_find d errors usr fileId userId =
     (if errors \<noteq> [] then Inl (Failure 400 (hd errors))
      else case usr of
        None \<Rightarrow> Inl (Failure 401 ''Not authenticated'')
      | Some u \<Rightarrow>
          (case findById file_id fileId (files d) of
             None \<Rightarrow> Inl (Failure 404 ''File not found'')
           | Some (_, f) \<Rightarrow>
               if file_owner f \<noteq> u then Inl (Failure 403 ''Only the owner can share this file'')
               else if userId = ObjectId_toString u
               then Inl (Failure 400 ''Cannot share with yourself'')
               else
                 (case castObjectId userId of
                    None \<Rightarrow> Inl (Failure 500 ''Failed to share file'')
                  | Some target \<Rightarrow>
                      Inr (u, target,
                           findOne (\<lambda>s. share_file s = fileId \<and> sharedWith s = Some target
                                         \<and> shareType s = User) (shares d)))))"

definition shareWithUser_write ::
  "env \<Rightarrow> db \<Rightarrow> oid \<Rightarrow> oid \<Rightarrow> oid \<Rightarrow> Permission option \<Rightarrow> string option
     \<Rightarrow> (nat \<times> IShare) option \<Rightarrow> db \<times> response" where
  "shareWithUser_write e d u fileId target perm expires existing =
     (case existing of
        Some (i, existingShare) \<Rightarrow>
          let updated = existingShare
                \<lparr>permission := (case perm of Some p \<Rightarrow> p | None \<Rightarrow> permission existingShare),
                 expiresAt := (case parseExpiration e expires of
                                 Some t \<Rightarrow> Some t
                               | None \<Rightarrow> expiresAt existingShare),
                 isActive := True\<rparr>
          in (d\<lparr>shares := save i updated (shares d)\<rparr>,
              Success 200 ''Share updated successfully'' (ShareData updated))
      | None \<Rightarrow>
          (case Share_create d fileId u User (Some target) None
                  (case perm of Some p \<Rightarrow> p | None \<Rightarrow> View) (parseExpiration e expires) of
             None \<Rightarrow> (d, Failure 500 ''Failed to share file'')
           | Some (d1, share) \<Rightarrow>
               (logAudit e d1 u file_share_user (Some fileId) (Some (share_id share)),
                Success 201 ''File shared successfully'' (ShareData share))))"

definition shareWithUser ::
  "env \<Rightarrow> db \<Rightarrow> string list \<Rightarrow> oid option \<Rightarrow> oid \<Rightarrow> string \<Rightarrow> Permission option \<Rightarrow> string option
     \<Rightarrow> db \<times> response" where
  "shareWithUser e d errors usr fileId userId perm expires =
     (case shareWithUser_find d errors usr fileId userId of
        Inl r \<Rightarrow> (d, r)
      | Inr (u, target, existing) \<Rightarrow>
          shareWithUser_write e d u fileId target perm expires existing)"

text \<open>
  Two \<open>shareWithUser\<close> requests by the same user for the same (file, target),
  scheduled so that both have awaited \<open>Share.findOne\<close> before either awaits its
  write: both lookups read the same store, the first write runs on it, and the
  second write runs on the store the first one left, with its own earlier lookup.
\<close>

definition shareWithUser_concurrent ::
  "env \<Rightarrow> db \<Rightarrow> oid option \<Rightarrow> oid \<Rightarrow> string \<Rightarrow> Permission option \<Rightarrow> Permission option
     \<Rightarrow> db \<times> response \<times> response" where
  "shareWithUser_concurrent e d usr fileId userId permA permB =
     (case shareWithUser_find d [] usr fileId userId of
        Inl r \<Rightarrow> (d, r, r)
      | Inr (u, target, existing) \<Rightarrow>
          (case shareWithUser_write e d u fileId target permA None existing of
             (dA, rA) \<Rightarrow>
               (case shareWithUser_write e dA u fileId target permB None existing of
                  (dB, rB) \<Rightarrow> (dB, rA, rB))))"

definition fullShareLink :: "env \<Rightarrow> string \<Rightarrow> string" where
  "fullShareLink e tok =
     (case FRONTEND_URL e of
        None \<Rightarrow> ''http://localhost:5173''
      | Some u \<Rightarrow> if u = [] then ''http://localhost:5173'' else u) @ ''/shared/'' @ tok"

definition shareViaLink ::
  "env \<Rightarrow> db \<Rightarrow> string list \<Rightarrow> oid option \<Rightarrow> oid \<Rightarrow> Permission option \<Rightarrow> string option
     \<Rightarrow> db \<times> response" where
  "shareViaLink e d errors usr fileId perm expires =
     (if errors \<noteq> [] then (d, Failure 400 (hd errors))
      else case usr of
        None \<Rightarrow> (d, Failure 401 ''Not authenticated'')
      | Some u \<Rightarrow>
          (case findById file_id fileId (files d) of
             None \<Rightarrow> (d, Failure 404 ''File not found'')
           | Some (_, f) \<Rightarrow>
               if file_owner f \<noteq> u then (d, Failure 403 ''Only the owner can share this file'')
               else
                 let tok = generateShareLink e in
                 (case Share_create d fileId u Link None (Some tok)
                         (case perm of Some p \<Rightarrow> p | None \<Rightarrow> View) (parseExpiration e expires) of
                    None \<Rightarrow> (d, Failure 500 ''Failed to create share link'')
                  | Some (d1, share) \<Rightarrow>
                      (logAudit e d1 u file_share_link (Some fileId) (Some (share_id share)),
                       Success 201 ''Share link created successfully''
                         (LinkData share (fullShareLink e tok))))))"

definition accessViaLink :: "env \<Rightarrow> db \<Rightarrow> oid option \<Rightarrow> string \<Rightarrow> db \<times> response" where
  "accessViaLink e d usr tok =
     (case usr of
        None \<Rightarrow> (d, Failure 401 ''You must be logged in to access shared files'')
      | Some u \<Rightarrow>
          (case findOne (\<lambda>s. shareLink s = Some tok \<and> shareType s = Link \<and> isActive s)
                  (shares d) of
             None \<Rightarrow> (d, Failure 404 ''Share link not found or has been revoked'')
           | Some (_, share) \<Rightarrow>
               if isExpired e (expiresAt share)
               then (d, Failure 403 ''This share link has expired'')
               else
                 (case populateFile d (share_file share) of
                    None \<Rightarrow> (d, Failure 500 ''Failed to access shared file'')
                  | Some f \<Rightarrow>
                      (logAudit e d u share_access (Some (file_id f)) (Some (share_id share)),
                       Success 200 []
                         (AccessData share f (populateUser d (share_owner share))
                            (permission share))))))"

definition downloadViaLink :: "env \<Rightarrow> db \<Rightarrow> oid option \<Rightarrow> string \<Rightarrow> db \<times> response" where
  "downloadViaLink e d usr tok =
     (case usr of
        None \<Rightarrow> (d, Failure 401 ''You must be logged in to download shared files'')
      | Some u \<Rightarrow>
          (case findOne (\<lambda>s. shareLink s = Some tok \<and> shareType s = Link \<and> isActive s
                              \<and> permission s = Download) (shares d) of
             None \<Rightarrow>
               (d, Failure 403 ''Share link not found or does not have download permission'')
           | Some (_, share) \<Rightarrow>
               if isExpired e (expiresAt share)
               then (d, Failure 403 ''This share link has expired'')
               else
                 (case populateFile d (share_file share) of
                    None \<Rightarrow> (d, Failure 500 ''Failed to download file'')
                  | Some f \<Rightarrow>
                      (logAudit e d u file_download (Some (file_id f)) (Some (share_id share)),
                       SendFile (path f) (originalName f)))))"

definition updateShareExpiration ::
  "env \<Rightarrow> db \<Rightarrow> oid option \<Rightarrow> oid \<Rightarrow> string option \<Rightarrow> db \<times> response" where
  "updateShareExpiration e d usr shareId expires =
     (case usr of
        None \<Rightarrow> (d, Failure 401 ''Not authenticated'')
      | Some u \<Rightarrow>
          (case findById share_id shareId (shares d) of
             None \<Rightarrow> (d, Failure 404 ''Share not found'')
           | Some (i, share) \<Rightarrow>
               if share_owner share \<noteq> u
               then (d, Failure 403 ''Only the owner can update this share'')
               else
                 let updated = share\<lparr>expiresAt := parseExpiration e expires\<rparr>
                 in (d\<lparr>shares := save i updated (shares d)\<rparr>,
                     Success 200 ''Share expiration updated'' (ShareData updated))))"

section \<open>File controller (controllers/fileController.ts)\<close>

text \<open>
  \<open>getFileById\<close> populates the owner before it compares ids, so a dangling owner
  reference throws. \<open>downloadFile\<close> takes \<open>fs.existsSync\<close> as \<open>existsSync\<close>.
\<close>

definition getFileById :: "env \<Rightarrow> db \<Rightarrow> oid option \<Rightarrow> oid \<Rightarrow> db \<times> response" where
  "getFileById e d usr fid =
     (case usr of
        None \<Rightarrow> (d, Failure 401 ''Not authenticated'')
      | Some u \<Rightarrow>
          (case findById file_id fid (files d) of
             None \<Rightarrow> (d, Failure 404 ''File not found'')
           | Some (_, f) \<Rightarrow>
               (case populateUser d (file_owner f) of
                  None \<Rightarrow> (d, Failure 500 ''Failed to get file'')
                | Some ow \<Rightarrow>
                    let isOwner = (ow = u) in
                    if \<not> isOwner \<and>
                       findOne (\<lambda>s. share_file s = fid \<and> sharedWith s = Some u \<and> shareType s = User
                                     \<and> isActive s \<and> unexpiredQuery e s) (shares d) = None
                    then (d, Failure 403 ''Access denied'')
                    else (logAudit e d u file_view (Some fid) None,
                          Success 200 [] (FileData f)))))"

definition downloadFile ::
  "env \<Rightarrow> (string \<Rightarrow> bool) \<Rightarrow> db \<Rightarrow> oid option \<Rightarrow> oid \<Rightarrow> db \<times> response" where
  "downloadFile e existsSync d usr fid =
     (case usr of
        None \<Rightarrow> (d, Failure 401 ''Not authenticated'')
      | Some u \<Rightarrow>
          (case findById file_id fid (files d) of
             None \<Rightarrow> (d, Failure 404 ''File not found'')
           | Some (_, f) \<Rightarrow>
               let isOwner = (file_owner f = u) in
               if \<not> isOwner \<and>
                  findOne (\<lambda>s. share_file s = fid \<and> sharedWith s = Some u \<and> shareType s = User
                                \<and> permission s = Download \<and> isActive s \<and> unexpiredQuery e s)
                    (shares d) = None
               then (d, Failure 403 ''Access denied. You do not have download permission.'')
               else if \<not> existsSync (path f) then (d, Failure 404 ''File not found on server'')
               else (logAudit e d u file_download (Some fid) None,
                     SendFile (path f) (originalName f))))"

section \<open>Compression service (services/compressionService.ts)\<close>

text \<open>
  The file system maps a path to the bytes stored there; \<open>fs.statSync(p).size\<close> is
  the length of the bytes, and \<open>statSync\<close> on a missing path throws (\<open>None\<close>: the
  exception leaves the function). The temporary path (\<open>compressedPath\<close>,
  \<open>zipPath\<close>) is what Node's \<open>path\<close> library computes from the file's path and
  is taken as a parameter, and so is the outcome of the external transform:
  \<open>sharpOut\<close> is \<open>None\<close> when \<open>sharp(...).toFile\<close> throws and the bytes it wrote
  otherwise. Sizes are integers and the quotient and the product by 0.9 are taken
  in exact arithmetic.
\<close>

type_synonym bytes = "nat list"
type_synonym filesystem = "string \<rightharpoonup> bytes"

record CompressionResult =
  success :: bool
  originalSize :: nat
  compressedSize :: nat
  compressionRatio :: real
  newPath :: "string option"

definition notCompressed :: "nat \<Rightarrow> CompressionResult" where
  "notCompressed n =
     \<lparr>success = False, originalSize = n, compressedSize = n, compressionRatio = 1,
      newPath = None\<rparr>"

definition compressImage ::
  "string \<Rightarrow> bytes option \<Rightarrow> filesystem \<Rightarrow> string \<Rightarrow> string
     \<Rightarrow> (filesystem \<times> CompressionResult) option" where
  "compressImage compressedPath sharpOut fs filePath mimeType =
     (case fs filePath of
        None \<Rightarrow> None
      | Some orig \<Rightarrow>
          let originalSize = length orig in
          if originalSize < 100 * 1024 then Some (fs, notCompressed originalSize)
          else if \<not> (mimeType = ''image/jpeg'' \<or> mimeType = ''image/jpg''
                      \<or> mimeType = ''image/png'' \<or> mimeType = ''image/webp'')
          then Some (fs, notCompressed originalSize)
          else
            (case sharpOut of
               None \<Rightarrow> Some (fs(compressedPath := None), notCompressed originalSize)
             | Some out \<Rightarrow>
                 let fs1 = fs(compressedPath \<mapsto> out);
                     compressedSize = length out
                 in
                 if compressedSize < originalSize then
                   let fs2 = fs1(filePath := None) in
                   (case fs2 compressedPath of
                      None \<Rightarrow> Some (fs2, notCompressed originalSize)
                    | Some c \<Rightarrow>
                        Some ((fs2(compressedPath := None))(filePath \<mapsto> c),
                              \<lparr>success = True, originalSize = originalSize,
                               compressedSize = compressedSize,
                               compressionRatio = real compressedSize / real originalSize,
                               newPath = Some filePath\<rparr>))
                 else Some (fs1(compressedPath := None), notCompressed originalSize)))"

text \<open>
  The archive either closes its output with the bytes written, emits \<open>error\<close>, or
  its set-up throws. The output stream is opened at \<open>zipPath\<close> and replaces
  whatever is stored there.
\<close>

datatype ZipOutcome = Closed bytes | ArchiveError | Thrown

definition createZipArchive ::
  "string \<Rightarrow> ZipOutcome \<Rightarrow> filesystem \<Rightarrow> string \<Rightarrow> (filesystem \<times> CompressionResult) option" where
  "createZipArchive zipPath outcome fs filePath =
     (case fs filePath of
        None \<Rightarrow> None
      | Some orig \<Rightarrow>
          let originalSize = length orig in
          (case outcome of
             Thrown \<Rightarrow> Some (fs, notCompressed originalSize)
           | ArchiveError \<Rightarrow> Some (fs(zipPath := None), notCompressed originalSize)
           | Closed z \<Rightarrow>
               let fs1 = fs(zipPath \<mapsto> z);
                   compressedSize = length z
               in
               if real compressedSize < real originalSize * 0.9 then
                 Some (fs1(filePath := None),
                       \<lparr>success = True, originalSize = originalSize,
                        compressedSize = compressedSize,
                        compressionRatio = real compressedSize / real originalSize,
                        newPath = Some zipPath\<rparr>)
               else Some (fs1(zipPath := None), notCompressed originalSize)))"

definition compressFile ::
  "string \<Rightarrow> bytes option \<Rightarrow> filesystem \<Rightarrow> string \<Rightarrow> string
     \<Rightarrow> (filesystem \<times> CompressionResult) option" where
  "compressFile compressedPath sharpOut fs filePath mimeType =
     (if take 6 mimeType = ''image/''
      then compressImage compressedPath sharpOut fs filePath mimeType
      else (case fs filePath of
              None \<Rightarrow> None
            | Some orig \<Rightarrow> Some (fs, notCompressed (length orig))))"

section \<open>Fixtures\<close>

text \<open>
  One owner (user 1) with one file (10), a user share to user 2 and a link share
  whose token is the one \<open>generateShareLink\<close> issues in \<open>fx_env\<close>. The clock
  stands at 1700000000000 (14 November 2023); the user share expires at
  1767225600000 (1 January 2026).
\<close>

definition fx_dates :: "string \<Rightarrow> instant option" where
  "fx_dates s =
     (if s = ''2030-01-01T00:00:00.000Z'' then Some 1893456000000
      else if s = ''2020-01-01T00:00:00.000Z'' then Some 1577836800000
      else None)"

definition fx_env :: env where
  "fx_env =
     \<lparr>now = 1700000000000, newDate = fx_dates,
      uuidv4 = ''3f2b8c1e-9a4d-4e6f-8b7a-5c0d1e2f3a4b'',
      auditStoreUp = True, FRONTEND_URL = None\<rparr>"

definition fx_file :: IFile where
  "fx_file =
     \<lparr>file_id = 10, originalName = ''report.pdf'', path = ''uploads/a1.pdf'', file_owner = 1\<rparr>"

definition fx_user_share :: IShare where
  "fx_user_share =
     \<lparr>share_id = 20, share_file = 10, share_owner = 1, shareType = User,
      sharedWith = Some 2, shareLink = None, permission = View,
      expiresAt = Some 1767225600000, isActive = True\<rparr>"

definition fx_link_share :: IShare where
  "fx_link_share =
     \<lparr>share_id = 21, share_file = 10, share_owner = 1, shareType = Link,
      sharedWith = None, shareLink = Some ''3f2b8c1e9a4d4e6f8b7a5c0d1e2f3a4b'',
      permission = View, expiresAt = None, isActive = True\<rparr>"

definition fx_db :: db where
  "fx_db =
     \<lparr>users = [1, 2, 3], files = [fx_file], shares = [fx_user_share, fx_link_share],
      auditlogs = [], nextId = 22\<rparr>"

text \<open>
  Further stores over the same file: shares that expire exactly at the clock's
  reading, the user share revoked, no share at all, and both shares with download
  permission. \<open>fx_fs\<close> holds one 200 KiB image and \<open>fx_zip_fs\<close> one 200 KiB
  upload stored as \<open>uploads/a1.zip\<close>.
\<close>

definition fx_boundary_share :: IShare where
  "fx_boundary_share =
     \<lparr>share_id = 30, share_file = 10, share_owner = 1, shareType = User,
      sharedWith = Some 3, shareLink = None, permission = Download,
      expiresAt = Some 1700000000000, isActive = True\<rparr>"

definition fx_boundary_link :: IShare where
  "fx_boundary_link =
     \<lparr>share_id = 31, share_file = 10, share_owner = 1, shareType = Link,
      sharedWith = None, shareLink = Some ''0a1b2c3d4e5f60718293a4b5c6d7e8f9'',
      permission = Download, expiresAt = Some 1700000000000, isActive = True\<rparr>"

definition fx_boundary_db :: db where
  "fx_boundary_db = fx_db\<lparr>shares := [fx_boundary_share, fx_boundary_link]\<rparr>"

definition fx_revoked_db :: db where
  "fx_revoked_db = fx_db\<lparr>shares := [fx_user_share\<lparr>isActive := False\<rparr>, fx_link_share]\<rparr>"

definition fx_empty_db :: db where
  "fx_empty_db = fx_db\<lparr>shares := []\<rparr>"

definition fx_download_db :: db where
  "fx_download_db =
     fx_db\<lparr>shares := [fx_user_share\<lparr>permission := Download\<rparr>,
                       fx_link_share\<lparr>permission := Download\<rparr>]\<rparr>"

definition fx_orig :: bytes where
  "fx_orig = replicate 204800 0"

definition fx_small :: bytes where
  "fx_small = replicate 1000 0"

definition fx_zip :: bytes where
  "fx_zip = replicate 190000 0"

definition fx_fs :: filesystem where
  "fx_fs = [''uploads/p.png'' \<mapsto> fx_orig]"


section \<open>Store lemmas\<close>

lemmas fx_defs = fx_dates_def fx_env_def fx_file_def fx_user_share_def fx_link_share_def fx_db_def

lemma fx_owner_string: "ObjectId_toString 1 = ''000000000000000000000001''"
  by code_simp

lemma fx_owner_string_Suc: "ObjectId_toString (Suc 0) = ''000000000000000000000001''"
  using fx_owner_string by simp

lemma fx_cast_user2: "castObjectId ''000000000000000000000002'' = Some 2"
  by code_simp

lemma fx_cast_user3: "castObjectId ''000000000000000000000003'' = Some 3"
  by code_simp

lemmas fx_ids = fx_owner_string fx_owner_string_Suc fx_cast_user2 fx_cast_user3

lemma findOneFrom_Some:
  "findOneFrom i P xs = Some (j, x) \<Longrightarrow> i \<le> j \<and> j < i + length xs \<and> xs ! (j - i) = x \<and> P x"
proof (induction xs arbitrary: i)
  case Nil
  then show ?case by simp
next
  case (Cons y ys)
  show ?case
  proof (cases "P y")
    case True
    with Cons.prems show ?thesis by simp
  next
    case False
    with Cons.prems have "findOneFrom (Suc i) P ys = Some (j, x)" by simp
    from Cons.IH[OF this] show ?thesis by (auto simp: Suc_diff_le)
  qed
qed

lemma findOneFrom_None: "findOneFrom i P xs = None \<longleftrightarrow> (\<forall>x \<in> set xs. \<not> P x)"
  by (induction xs arbitrary: i) auto

lemma findOne_Some: "findOne P xs = Some (j, x) \<Longrightarrow> j < length xs \<and> xs ! j = x \<and> P x"
  using findOneFrom_Some[of 0 P xs j x] by (simp add: findOne_def)

lemma findOneFrom_first:
  "findOneFrom i P xs = Some (j, x) \<Longrightarrow> k < j - i \<Longrightarrow> \<not> P (xs ! k)"
proof (induction xs arbitrary: i k)
  case Nil
  then show ?case by simp
next
  case (Cons y ys)
  show ?case
  proof (cases "P y")
    case True
    with Cons.prems show ?thesis by simp
  next
    case False
    with Cons.prems have r: "findOneFrom (Suc i) P ys = Some (j, x)" by simp
    show ?thesis
    proof (cases k)
      case 0
      with False show ?thesis by simp
    next
      case (Suc k')
      with Cons.prems(2) have "k' < j - Suc i" by simp
      from Cons.IH[OF r this] Suc show ?thesis by simp
    qed
  qed
qed

lemma findOne_first: "findOne P xs = Some (j, x) \<Longrightarrow> k < j \<Longrightarrow> \<not> P (xs ! k)"
  using findOneFrom_first[of 0 P xs j x k] by (simp add: findOne_def)

lemma findOne_None: "findOne P xs = None \<longleftrightarrow> (\<forall>x \<in> set xs. \<not> P x)"
  by (simp add: findOne_def findOneFrom_None)

lemma findOne_exists: "x \<in> set xs \<Longrightarrow> P x \<Longrightarrow> \<exists>j y. findOne P xs = Some (j, y)"
proof (cases "findOne P xs")
  case None
  then have "\<forall>x \<in> set xs. \<not> P x" by (simp add: findOne_None)
  then show "x \<in> set xs \<Longrightarrow> P x \<Longrightarrow> ?thesis" by blast
next
  case (Some a)
  then show ?thesis by (cases a) simp
qed


lemma findOneFrom_only:
  "x \<in> set xs \<Longrightarrow> P x \<Longrightarrow> (\<forall>y \<in> set xs. P y \<longrightarrow> y = x) \<Longrightarrow> \<exists>j. findOneFrom i P xs = Some (j, x)"
proof (induction xs arbitrary: i)
  case Nil
  then show ?case by simp
next
  case (Cons y ys)
  show ?case
  proof (cases "P y")
    case True
    with Cons.prems have "y = x" by simp
    with True show ?thesis by simp
  next
    case False
    with Cons.prems have "x \<in> set ys" by auto
    moreover from Cons.prems have "\<forall>z \<in> set ys. P z \<longrightarrow> z = x" by simp
    ultimately have "\<exists>j. findOneFrom (Suc i) P ys = Some (j, x)"
      using Cons.IH Cons.prems(2) by blast
    with False show ?thesis by simp
  qed
qed

lemma findOne_only:
  "x \<in> set xs \<Longrightarrow> P x \<Longrightarrow> (\<forall>y \<in> set xs. P y \<longrightarrow> y = x) \<Longrightarrow> \<exists>j. findOne P xs = Some (j, x)"
  unfolding findOne_def by (rule findOneFrom_only)

lemma filter_update_same:
  "i < length xs \<Longrightarrow> P (xs ! i) = P y \<Longrightarrow> length (filter P (xs[i := y])) = length (filter P xs)"
proof (induction xs arbitrary: i)
  case Nil
  then show ?case by simp
next
  case (Cons x xs)
  then show ?case by (cases i) auto
qed


section \<open>Permission resolution\<close>

text \<open>
  C1. When the requesting principal is the file's owner, \<open>getFileById\<close> answers
  with the file and \<open>downloadFile\<close> sends it (or answers 404 when the bytes are
  gone from disk), whatever Share records the store holds: the result is the same
  for every list \<open>ss\<close> of shares, so the Share lookup plays no part.
\<close>

theorem owner_access_ignores_shares:
  assumes "findById file_id fid (files d) = Some (j, f)"
    and "file_owner f = u"
    and "u \<in> set (users d)"
  shows "getFileById e (d\<lparr>shares := ss\<rparr>) (Some u) fid =
           (logAudit e (d\<lparr>shares := ss\<rparr>) u file_view (Some fid) None,
            Success 200 [] (FileData f))
       \<and> downloadFile e existsSync (d\<lparr>shares := ss\<rparr>) (Some u) fid =
           (if existsSync (path f)
            then (logAudit e (d\<lparr>shares := ss\<rparr>) u file_download (Some fid) None,
                  SendFile (path f) (originalName f))
            else (d\<lparr>shares := ss\<rparr>, Failure 404 ''File not found on server''))"
  using assms by (simp add: getFileById_def downloadFile_def populateUser_def)

theorem owner_access_ignores_shares_witness:
  "findById file_id 10 (files fx_db) = Some (0, fx_file) \<and> file_owner fx_file = 1
   \<and> 1 \<in> set (users fx_db)
   \<and> getFileById fx_env (fx_db\<lparr>shares := [fx_link_share]\<rparr>) (Some 1) 10 =
        (logAudit fx_env (fx_db\<lparr>shares := [fx_link_share]\<rparr>) 1 file_view (Some 10) None,
         Success 200 [] (FileData fx_file))
   \<and> downloadFile fx_env (\<lambda>p. True) (fx_db\<lparr>shares := [fx_link_share]\<rparr>) (Some 1) 10 =
        (logAudit fx_env (fx_db\<lparr>shares := [fx_link_share]\<rparr>) 1 file_download (Some 10) None,
         SendFile ''uploads/a1.pdf'' ''report.pdf'')"
proof -
  have h1: "findById file_id 10 (files fx_db) = Some (0, fx_file)"
    by (simp add: findById_def findOne_def fx_db_def fx_file_def)
  have h2: "file_owner fx_file = 1" by (simp add: fx_file_def)
  have h3: "1 \<in> set (users fx_db)" by (simp add: fx_db_def)
  from owner_access_ignores_shares[OF h1 h2 h3, of fx_env "[fx_link_share]" "\<lambda>p. True"] h1 h2 h3
  show ?thesis by (simp add: fx_file_def)
qed

lemma download_denied_view_only:
  assumes "findById file_id fid (files d) = Some (j, f)" and "file_owner f \<noteq> u"
    and "\<forall>s \<in> set (shares d). share_file s = fid \<and> sharedWith s = Some u \<and> shareType s = User
            \<longrightarrow> permission s = View"
  shows "downloadFile e existsSync d (Some u) fid =
           (d, Failure 403 ''Access denied. You do not have download permission.'')"
proof -
  have "findOne (\<lambda>s. share_file s = fid \<and> sharedWith s = Some u \<and> shareType s = User
                      \<and> permission s = Download \<and> isActive s \<and> unexpiredQuery e s)
          (shares d) = None"
    unfolding findOne_None using assms(3) by auto
  with assms(1,2) show ?thesis by (simp add: downloadFile_def)
qed

lemma link_download_denied_view_only:
  assumes "\<forall>s \<in> set (shares d). shareLink s = Some tok \<and> shareType s = Link \<longrightarrow> permission s = View"
  shows "downloadViaLink e d (Some u) tok =
           (d, Failure 403 ''Share link not found or does not have download permission'')"
proof -
  have "findOne (\<lambda>s. shareLink s = Some tok \<and> shareType s = Link \<and> isActive s
                      \<and> permission s = Download) (shares d) = None"
    unfolding findOne_None using assms by auto
  then show ?thesis by (simp add: downloadViaLink_def)
qed

lemma download_share_grants:
  assumes f: "findById file_id fid (files d) = Some (j, f)"
    and ow: "file_owner f \<in> set (users d)"
    and s: "s \<in> set (shares d)" "share_file s = fid" "sharedWith s = Some u" "shareType s = User"
      "permission s = Download" "isActive s"
    and un: "expiresAt s = None \<or> (\<exists>t. expiresAt s = Some t \<and> now e < t)"
  shows "getFileById e d (Some u) fid =
           (logAudit e d u file_view (Some fid) None, Success 200 [] (FileData f))"
    and "downloadFile e existsSync d (Some u) fid =
           (if existsSync (path f)
            then (logAudit e d u file_download (Some fid) None,
                  SendFile (path f) (originalName f))
            else (d, Failure 404 ''File not found on server''))"
proof -
  from un have q: "unexpiredQuery e s" by (auto simp: unexpiredQuery_def)
  let ?V = "\<lambda>s. share_file s = fid \<and> sharedWith s = Some u \<and> shareType s = User
                 \<and> isActive s \<and> unexpiredQuery e s"
  let ?D = "\<lambda>s. share_file s = fid \<and> sharedWith s = Some u \<and> shareType s = User
                 \<and> permission s = Download \<and> isActive s \<and> unexpiredQuery e s"
  from s q have "?V s" "?D s" by simp_all
  with s(1) have v: "findOne ?V (shares d) \<noteq> None" and dl: "findOne ?D (shares d) \<noteq> None"
    using findOne_exists[of s "shares d" ?V] findOne_exists[of s "shares d" ?D] by auto
  from f ow v show "getFileById e d (Some u) fid =
           (logAudit e d u file_view (Some fid) None, Success 200 [] (FileData f))"
    by (simp add: getFileById_def populateUser_def)
  from f dl show "downloadFile e existsSync d (Some u) fid =
           (if existsSync (path f)
            then (logAudit e d u file_download (Some fid) None,
                  SendFile (path f) (originalName f))
            else (d, Failure 404 ''File not found on server''))"
    by (simp add: downloadFile_def)
qed

lemma download_link_grants:
  assumes l: "l \<in> set (shares d)" "shareLink l = Some tok" "shareType l = Link"
      "permission l = Download" "isActive l"
    and un: "expiresAt l = None \<or> (\<exists>t. expiresAt l = Some t \<and> now e < t)"
    and only: "\<forall>x \<in> set (shares d). shareLink x = Some tok \<longrightarrow> x = l"
    and g: "populateFile d (share_file l) = Some g"
  shows "accessViaLink e d (Some u) tok =
           (logAudit e d u share_access (Some (file_id g)) (Some (share_id l)),
            Success 200 [] (AccessData l g (populateUser d (share_owner l)) Download))"
    and "downloadViaLink e d (Some u) tok =
           (logAudit e d u file_download (Some (file_id g)) (Some (share_id l)),
            SendFile (path g) (originalName g))"
proof -
  from un have ne: "\<not> isExpired e (expiresAt l)" by (auto simp: isExpired_def)
  let ?A = "\<lambda>s. shareLink s = Some tok \<and> shareType s = Link \<and> isActive s"
  let ?D = "\<lambda>s. shareLink s = Some tok \<and> shareType s = Link \<and> isActive s
                 \<and> permission s = Download"
  from l have "?A l" "?D l" by simp_all
  moreover from only have "\<forall>y \<in> set (shares d). ?A y \<longrightarrow> y = l"
    and "\<forall>y \<in> set (shares d). ?D y \<longrightarrow> y = l" by simp_all
  ultimately obtain i k where a: "findOne ?A (shares d) = Some (i, l)"
    and dl: "findOne ?D (shares d) = Some (k, l)"
    using findOne_only[of l "shares d" ?A] findOne_only[of l "shares d" ?D] l(1) by blast
  from a ne g l(4) show "accessViaLink e d (Some u) tok =
           (logAudit e d u share_access (Some (file_id g)) (Some (share_id l)),
            Success 200 [] (AccessData l g (populateUser d (share_owner l)) Download))"
    by (simp add: accessViaLink_def)
  from dl ne g show "downloadViaLink e d (Some u) tok =
           (logAudit e d u file_download (Some (file_id g)) (Some (share_id l)),
            SendFile (path g) (originalName g))"
    by (simp add: downloadViaLink_def)
qed

text \<open>
  C6. A principal who is not the owner and whose user shares on the file are all
  view shares is refused the download with 403, and the store is left as it was; a
  link whose shares are view shares is refused likewise. No view result is
  returned in its place. A download share that is active and not yet expired lets
  its holder view the file (\<open>getFileById\<close>, \<open>accessViaLink\<close>) and download it
  (\<open>downloadFile\<close>, \<open>downloadViaLink\<close>); \<open>downloadFile\<close> still answers 404
  when the bytes are missing on disk. For the link the token is taken to be unique
  in the store, as its unique index keeps it, and the shared file to be stored.
\<close>

theorem view_share_denies_download:
  "(findById file_id fid (files d) = Some (j, f) \<and> file_owner f \<noteq> u
      \<and> (\<forall>s \<in> set (shares d). share_file s = fid \<and> sharedWith s = Some u \<and> shareType s = User
             \<longrightarrow> permission s = View)
    \<longrightarrow> downloadFile e existsSync d (Some u) fid =
          (d, Failure 403 ''Access denied. You do not have download permission.''))
   \<and> ((\<forall>s \<in> set (shares d). shareLink s = Some tok \<and> shareType s = Link \<longrightarrow> permission s = View)
    \<longrightarrow> downloadViaLink e d (Some u) tok =
          (d, Failure 403 ''Share link not found or does not have download permission''))
   \<and> (findById file_id fid (files d) = Some (j, f) \<and> file_owner f \<in> set (users d)
      \<and> s \<in> set (shares d) \<and> share_file s = fid \<and> sharedWith s = Some u \<and> shareType s = User
      \<and> permission s = Download \<and> isActive s
      \<and> (expiresAt s = None \<or> (\<exists>t. expiresAt s = Some t \<and> now e < t))
    \<longrightarrow> getFileById e d (Some u) fid =
          (logAudit e d u file_view (Some fid) None, Success 200 [] (FileData f))
      \<and> downloadFile e existsSync d (Some u) fid =
          (if existsSync (path f)
           then (logAudit e d u file_download (Some fid) None,
                 SendFile (path f) (originalName f))
           else (d, Failure 404 ''File not found on server'')))
   \<and> (l \<in> set (shares d) \<and> shareLink l = Some tok \<and> shareType l = Link
      \<and> permission l = Download \<and> isActive l
      \<and> (expiresAt l = None \<or> (\<exists>t. expiresAt l = Some t \<and> now e < t))
      \<and> (\<forall>x \<in> set (shares d). shareLink x = Some tok \<longrightarrow> x = l)
      \<and> populateFile d (share_file l) = Some g
    \<longrightarrow> accessViaLink e d (Some u) tok =
          (logAudit e d u share_access (Some (file_id g)) (Some (share_id l)),
           Success 200 [] (AccessData l g (populateUser d (share_owner l)) Download))
      \<and> downloadViaLink e d (Some u) tok =
          (logAudit e d u file_download (Some (file_id g)) (Some (share_id l)),
           SendFile (path g) (originalName g)))"
proof (intro conjI impI)
  assume "findById file_id fid (files d) = Some (j, f) \<and> file_owner f \<noteq> u
      \<and> (\<forall>s \<in> set (shares d). share_file s = fid \<and> sharedWith s = Some u \<and> shareType s = User
             \<longrightarrow> permission s = View)"
  then have "findById file_id fid (files d) = Some (j, f)" "file_owner f \<noteq> u"
    "\<forall>s \<in> set (shares d). share_file s = fid \<and> sharedWith s = Some u \<and> shareType s = User
             \<longrightarrow> permission s = View"
    by simp_all
  then show "downloadFile e existsSync d (Some u) fid =
          (d, Failure 403 ''Access denied. You do not have download permission.'')"
    by (rule download_denied_view_only)
next
  assume "\<forall>s \<in> set (shares d). shareLink s = Some tok \<and> shareType s = Link \<longrightarrow> permission s = View"
  then show "downloadViaLink e d (Some u) tok =
          (d, Failure 403 ''Share link not found or does not have download permission'')"
    by (rule link_download_denied_view_only)
next
  assume "findById file_id fid (files d) = Some (j, f) \<and> file_owner f \<in> set (users d)
      \<and> s \<in> set (shares d) \<and> share_file s = fid \<and> sharedWith s = Some u \<and> shareType s = User
      \<and> permission s = Download \<and> isActive s
      \<and> (expiresAt s = None \<or> (\<exists>t. expiresAt s = Some t \<and> now e < t))"
  then have h: "findById file_id fid (files d) = Some (j, f)" "file_owner f \<in> set (users d)"
    "s \<in> set (shares d)" "share_file s = fid" "sharedWith s = Some u" "shareType s = User"
    "permission s = Download" "isActive s"
    "expiresAt s = None \<or> (\<exists>t. expiresAt s = Some t \<and> now e < t)"
    by simp_all
  show "getFileById e d (Some u) fid =
          (logAudit e d u file_view (Some fid) None, Success 200 [] (FileData f))"
    by (rule download_share_grants(1)[OF h])
  show "downloadFile e existsSync d (Some u) fid =
          (if existsSync (path f)
           then (logAudit e d u file_download (Some fid) None,
                 SendFile (path f) (originalName f))
           else (d, Failure 404 ''File not found on server''))"
    by (rule download_share_grants(2)[OF h])
next
  assume "l \<in> set (shares d) \<and> shareLink l = Some tok \<and> shareType l = Link
      \<and> permission l = Download \<and> isActive l
      \<and> (expiresAt l = None \<or> (\<exists>t. expiresAt l = Some t \<and> now e < t))
      \<and> (\<forall>x \<in> set (shares d). shareLink x = Some tok \<longrightarrow> x = l)
      \<and> populateFile d (share_file l) = Some g"
  then have h: "l \<in> set (shares d)" "shareLink l = Some tok" "shareType l = Link"
    "permission l = Download" "isActive l"
    "expiresAt l = None \<or> (\<exists>t. expiresAt l = Some t \<and> now e < t)"
    "\<forall>x \<in> set (shares d). shareLink x = Some tok \<longrightarrow> x = l"
    "populateFile d (share_file l) = Some g"
    by simp_all
  show "accessViaLink e d (Some u) tok =
          (logAudit e d u share_access (Some (file_id g)) (Some (share_id l)),
           Success 200 [] (AccessData l g (populateUser d (share_owner l)) Download))"
    by (rule download_link_grants(1)[OF h])
  show "downloadViaLink e d (Some u) tok =
          (logAudit e d u file_download (Some (file_id g)) (Some (share_id l)),
           SendFile (path g) (originalName g))"
    by (rule download_link_grants(2)[OF h])
qed

text \<open>
  The four parts at the fixtures: user 2 and the link hold view shares in
  \<open>fx_db\<close> and download shares in \<open>fx_download_db\<close>.
\<close>

theorem view_share_denies_download_witness:
  "downloadFile fx_env (\<lambda>p. True) fx_db (Some 2) 10 =
     (fx_db, Failure 403 ''Access denied. You do not have download permission.'')
   \<and> downloadViaLink fx_env fx_db (Some 3) ''3f2b8c1e9a4d4e6f8b7a5c0d1e2f3a4b'' =
     (fx_db, Failure 403 ''Share link not found or does not have download permission'')
   \<and> getFileById fx_env fx_download_db (Some 2) 10 =
     (logAudit fx_env fx_download_db 2 file_view (Some 10) None, Success 200 [] (FileData fx_file))
   \<and> downloadFile fx_env (\<lambda>p. True) fx_download_db (Some 2) 10 =
     (logAudit fx_env fx_download_db 2 file_download (Some 10) None,
      SendFile ''uploads/a1.pdf'' ''report.pdf'')
   \<and> accessViaLink fx_env fx_download_db (Some 3) ''3f2b8c1e9a4d4e6f8b7a5c0d1e2f3a4b'' =
     (logAudit fx_env fx_download_db 3 share_access (Some 10) (Some 21),
      Success 200 [] (AccessData (fx_link_share\<lparr>permission := Download\<rparr>) fx_file (Some 1) Download))
   \<and> downloadViaLink fx_env fx_download_db (Some 3) ''3f2b8c1e9a4d4e6f8b7a5c0d1e2f3a4b'' =
     (logAudit fx_env fx_download_db 3 file_download (Some 10) (Some 21),
      SendFile ''uploads/a1.pdf'' ''report.pdf'')"
proof -
  let ?tok = "''3f2b8c1e9a4d4e6f8b7a5c0d1e2f3a4b''"
  let ?us = "fx_user_share\<lparr>permission := Download\<rparr>"
  let ?ls = "fx_link_share\<lparr>permission := Download\<rparr>"
  have a1: "findById file_id 10 (files fx_db) = Some (0, fx_file) \<and> file_owner fx_file \<noteq> 2
      \<and> (\<forall>s \<in> set (shares fx_db). share_file s = 10 \<and> sharedWith s = Some 2 \<and> shareType s = User
             \<longrightarrow> permission s = View)"
    by (simp add: findById_def findOne_def fx_db_def fx_file_def fx_user_share_def fx_link_share_def)
  have a2: "\<forall>s \<in> set (shares fx_db). shareLink s = Some ?tok \<and> shareType s = Link
              \<longrightarrow> permission s = View"
    by (simp add: fx_db_def fx_user_share_def fx_link_share_def)
  from view_share_denies_download[where d = fx_db and fid = 10 and j = 0 and f = fx_file and u = 2 and tok = ?tok
      and e = fx_env and existsSync = "\<lambda>p. True"] a1
  have c1: "downloadFile fx_env (\<lambda>p. True) fx_db (Some 2) 10 =
     (fx_db, Failure 403 ''Access denied. You do not have download permission.'')"
    by blast
  from view_share_denies_download[where d = fx_db and tok = ?tok and e = fx_env and u = 3] a2
  have c2: "downloadViaLink fx_env fx_db (Some 3) ?tok =
     (fx_db, Failure 403 ''Share link not found or does not have download permission'')"
    by blast
  have a3: "findById file_id 10 (files fx_download_db) = Some (0, fx_file)
      \<and> file_owner fx_file \<in> set (users fx_download_db)
      \<and> ?us \<in> set (shares fx_download_db) \<and> share_file ?us = 10 \<and> sharedWith ?us = Some 2
      \<and> shareType ?us = User \<and> permission ?us = Download \<and> isActive ?us
      \<and> (expiresAt ?us = None \<or> (\<exists>t. expiresAt ?us = Some t \<and> now fx_env < t))"
    by (simp add: findById_def findOne_def fx_download_db_def fx_db_def fx_file_def
        fx_user_share_def fx_env_def)
  from view_share_denies_download[where d = fx_download_db and fid = 10 and j = 0 and f = fx_file and u = 2
      and s = ?us and e = fx_env and existsSync = "\<lambda>p. True",
      THEN conjunct2, THEN conjunct2, THEN conjunct1, THEN mp, OF a3]
  have c3: "getFileById fx_env fx_download_db (Some 2) 10 =
     (logAudit fx_env fx_download_db 2 file_view (Some 10) None, Success 200 [] (FileData fx_file))
   \<and> downloadFile fx_env (\<lambda>p. True) fx_download_db (Some 2) 10 =
     (logAudit fx_env fx_download_db 2 file_download (Some 10) None,
      SendFile (path fx_file) (originalName fx_file))"
    by simp
  have a4: "?ls \<in> set (shares fx_download_db) \<and> shareLink ?ls = Some ?tok \<and> shareType ?ls = Link
      \<and> permission ?ls = Download \<and> isActive ?ls
      \<and> (expiresAt ?ls = None \<or> (\<exists>t. expiresAt ?ls = Some t \<and> now fx_env < t))
      \<and> (\<forall>x \<in> set (shares fx_download_db). shareLink x = Some ?tok \<longrightarrow> x = ?ls)
      \<and> populateFile fx_download_db (share_file ?ls) = Some fx_file"
    by (simp add: populateFile_def findById_def findOne_def fx_download_db_def fx_db_def
        fx_file_def fx_user_share_def fx_link_share_def)
  from view_share_denies_download[where d = fx_download_db and tok = ?tok and l = ?ls and g = fx_file and u = 3
      and e = fx_env] a4
  have c4: "accessViaLink fx_env fx_download_db (Some 3) ?tok =
     (logAudit fx_env fx_download_db 3 share_access (Some (file_id fx_file)) (Some (share_id ?ls)),
      Success 200 [] (AccessData ?ls fx_file (populateUser fx_download_db (share_owner ?ls)) Download))
   \<and> downloadViaLink fx_env fx_download_db (Some 3) ?tok =
     (logAudit fx_env fx_download_db 3 file_download (Some (file_id fx_file)) (Some (share_id ?ls)),
      SendFile (path fx_file) (originalName fx_file))"
    by blast
  have v: "path fx_file = ''uploads/a1.pdf''" "originalName fx_file = ''report.pdf''"
    "file_id fx_file = 10" "share_id ?ls = 21"
    "populateUser fx_download_db (share_owner ?ls) = Some 1"
    by (simp_all add: fx_file_def fx_link_share_def populateUser_def fx_download_db_def fx_db_def)
  from c1 c2 c3 c4 show ?thesis unfolding v by simp
qed

text \<open>
  C2. The helper \<open>isExpired\<close> and the virtuals \<open>isExpired\<close>/\<open>isValid\<close> use
  \<open>now > expiresAt\<close>, so a share is still valid at the instant \<open>now = expiresAt\<close>.
  The store queries require \<open>expiresAt > now\<close> and so reject the share at that
  same instant. Evaluated at a share expiring exactly at the clock's reading: the
  helper and the virtuals call it valid, \<open>accessViaLink\<close> grants access, while
  \<open>findValidShareForUser\<close>, \<open>findValidShareByLink\<close>, \<open>getFileById\<close> and
  \<open>downloadFile\<close> treat it as expired.
\<close>

theorem expiry_boundary_differs_in_store_queries:
  "now fx_env = 1700000000000
   \<and> expiresAt fx_boundary_share = Some 1700000000000
   \<and> isExpired fx_env (expiresAt fx_boundary_share) = False
   \<and> virtual_isExpired fx_env fx_boundary_share = False
   \<and> virtual_isValid fx_env fx_boundary_share = True
   \<and> findValidShareForUser fx_env fx_boundary_db 10 3 = None
   \<and> getFileById fx_env fx_boundary_db (Some 3) 10 = (fx_boundary_db, Failure 403 ''Access denied'')
   \<and> downloadFile fx_env (\<lambda>p. True) fx_boundary_db (Some 3) 10 =
        (fx_boundary_db, Failure 403 ''Access denied. You do not have download permission.'')
   \<and> findValidShareByLink fx_env fx_boundary_db ''0a1b2c3d4e5f60718293a4b5c6d7e8f9'' = None
   \<and> snd (accessViaLink fx_env fx_boundary_db (Some 3) ''0a1b2c3d4e5f60718293a4b5c6d7e8f9'') =
        Success 200 [] (AccessData fx_boundary_link fx_file (Some 1) Download)"
  by (simp add: fx_defs fx_boundary_share_def fx_boundary_link_def fx_boundary_db_def
      isExpired_def virtual_isExpired_def virtual_isValid_def findValidShareForUser_def
      findValidShareByLink_def unexpiredQuery_def findOne_def findById_def getFileById_def
      downloadFile_def accessViaLink_def populateUser_def populateFile_def logAudit_def)

section \<open>Share lifecycle\<close>

text \<open>
  The self-share guard compares strings: with an owner whose id is 10, the body
  string in lower case is the owner's \<open>toString()\<close> and is refused, while the same
  id in upper case passes the guard, casts to the owner's id and is stored as a
  share of the file with its owner.
\<close>

lemma self_share_guard_compares_strings:
  "ObjectId_toString 10 = ''00000000000000000000000a''
   \<and> castObjectId ''00000000000000000000000A'' = Some 10
   \<and> shareWithUser fx_env (fx_empty_db\<lparr>files := [fx_file\<lparr>file_owner := 10\<rparr>]\<rparr>) [] (Some 10) 10
        ''00000000000000000000000a'' None None =
       (fx_empty_db\<lparr>files := [fx_file\<lparr>file_owner := 10\<rparr>]\<rparr>,
        Failure 400 ''Cannot share with yourself'')
   \<and> snd (shareWithUser fx_env (fx_empty_db\<lparr>files := [fx_file\<lparr>file_owner := 10\<rparr>]\<rparr>) []
             (Some 10) 10 ''00000000000000000000000A'' None None) =
       Success 201 ''File shared successfully''
         (ShareData \<lparr>share_id = 22, share_file = 10, share_owner = 10, shareType = User,
                     sharedWith = Some 10, shareLink = None, permission = View,
                     expiresAt = None, isActive = True\<rparr>)"
proof -
  have a: "ObjectId_toString 10 = ''00000000000000000000000a''" by code_simp
  have b: "castObjectId ''00000000000000000000000A'' = Some 10" by code_simp
  show ?thesis
    by (simp add: a b shareWithUser_def shareWithUser_find_def shareWithUser_write_def
        Share_create_def logAudit_def parseExpiration_def findById_def findOne_def Let_def
        fx_empty_db_def fx_db_def fx_file_def fx_env_def)
qed

text \<open>
  C3, as stated, fails: an expiration that is supplied but lies in the past is not
  written. Re-granting to user 2 with the expiration 1 January 2020 leaves the
  stored expiration at 1 January 2026.
\<close>

theorem regrant_past_expiration_kept:
  "newDate fx_env ''2020-01-01T00:00:00.000Z'' = Some 1577836800000
   \<and> shareWithUser fx_env fx_db [] (Some 1) 10 ''000000000000000000000002'' (Some Download)
        (Some ''2020-01-01T00:00:00.000Z'') =
       (fx_db\<lparr>shares := [fx_user_share\<lparr>permission := Download\<rparr>, fx_link_share]\<rparr>,
        Success 200 ''Share updated successfully''
          (ShareData (fx_user_share\<lparr>permission := Download\<rparr>)))
   \<and> expiresAt (fx_user_share\<lparr>permission := Download\<rparr>) = Some 1767225600000"
  by (simp add: fx_ids shareWithUser_def shareWithUser_find_def shareWithUser_write_def
        parseExpiration_def fx_env_def fx_dates_def
        findById_def findOne_def save_def Let_def fx_db_def fx_file_def fx_user_share_def
        fx_link_share_def)

text \<open>
  C3, amended. Let the owner call \<open>shareWithUser\<close> with a target string that
  casts to the principal \<open>target\<close>, on a store holding a user share for
  (file, target). If the string is the owner's own \<open>_id.toString()\<close>, the call is
  refused with 400 and the store is unchanged. Otherwise it answers 200 and writes
  one record back in place: the first share matching the pair (no record before it
  matches). No record is added, every other record keeps its position and value,
  and the number of user shares for the pair is unchanged. In the record written,
  the permission is the supplied one (the stored one when none is supplied), the
  active flag is true, and the expiration is the supplied instant only when the
  supplied string is non-empty and parses to an instant strictly after the clock's
  reading; otherwise the stored expiration is kept. All other fields are as they
  were.
\<close>

theorem regrant_updates_in_place:
  assumes fnd: "findById file_id fileId (files d) = Some (j, f)"
    and own: "file_owner f = u"
    and cast: "castObjectId userId = Some target"
    and ex: "\<exists>s \<in> set (shares d). share_file s = fileId \<and> sharedWith s = Some target
                                   \<and> shareType s = User"
  shows "if userId = ObjectId_toString u
         then shareWithUser e d [] (Some u) fileId userId perm expires =
                (d, Failure 400 ''Cannot share with yourself'')
         else (\<exists>i s s'.
           i < length (shares d) \<and> shares d ! i = s
         \<and> share_file s = fileId \<and> sharedWith s = Some target \<and> shareType s = User
         \<and> (\<forall>k<i. \<not> (share_file (shares d ! k) = fileId
                        \<and> sharedWith (shares d ! k) = Some target
                        \<and> shareType (shares d ! k) = User))
         \<and> shareWithUser e d [] (Some u) fileId userId perm expires =
             (d\<lparr>shares := (shares d)[i := s']\<rparr>,
              Success 200 ''Share updated successfully'' (ShareData s'))
         \<and> s' = s\<lparr>permission := permission s', expiresAt := expiresAt s', isActive := True\<rparr>
         \<and> permission s' = (case perm of Some p \<Rightarrow> p | None \<Rightarrow> permission s)
         \<and> expiresAt s' =
             (case expires of
                None \<Rightarrow> expiresAt s
              | Some x \<Rightarrow>
                  (case newDate e x of
                     None \<Rightarrow> expiresAt s
                   | Some t \<Rightarrow> if x \<noteq> [] \<and> now e < t then Some t else expiresAt s))
         \<and> length (filter (\<lambda>s. share_file s = fileId \<and> sharedWith s = Some target
                                 \<and> shareType s = User) ((shares d)[i := s'])) =
             length (filter (\<lambda>s. share_file s = fileId \<and> sharedWith s = Some target
                                 \<and> shareType s = User) (shares d)))"
proof (cases "userId = ObjectId_toString u")
  case True
  with fnd own show ?thesis
    by (simp add: shareWithUser_def shareWithUser_find_def)
next
  case False
  let ?Q = "\<lambda>s. share_file s = fileId \<and> sharedWith s = Some target \<and> shareType s = User"
  from ex obtain s0 where "s0 \<in> set (shares d)" "?Q s0" by blast
  then obtain i s where fo: "findOne ?Q (shares d) = Some (i, s)"
    using findOne_exists[of s0 "shares d" ?Q] by blast
  then have ib: "i < length (shares d)" "shares d ! i = s" "?Q s"
    using findOne_Some[of ?Q "shares d" i s] by simp_all
  have first: "\<forall>k<i. \<not> ?Q (shares d ! k)"
    using findOne_first[OF fo] by blast
  let ?s' = "s\<lparr>permission := (case perm of Some p \<Rightarrow> p | None \<Rightarrow> permission s),
               expiresAt := (case parseExpiration e expires of
                               Some t \<Rightarrow> Some t | None \<Rightarrow> expiresAt s),
               isActive := True\<rparr>"
  have find: "shareWithUser_find d [] (Some u) fileId userId = Inr (u, target, Some (i, s))"
    using fnd own False cast fo by (simp add: shareWithUser_find_def)
  have r: "shareWithUser e d [] (Some u) fileId userId perm expires =
             (d\<lparr>shares := (shares d)[i := ?s']\<rparr>,
              Success 200 ''Share updated successfully'' (ShareData ?s'))"
    by (simp add: shareWithUser_def find shareWithUser_write_def save_def Let_def)
  have ex': "expiresAt ?s' =
             (case expires of
                None \<Rightarrow> expiresAt s
              | Some x \<Rightarrow>
                  (case newDate e x of
                     None \<Rightarrow> expiresAt s
                   | Some t \<Rightarrow> if x \<noteq> [] \<and> now e < t then Some t else expiresAt s))"
    by (auto simp: parseExpiration_def split: option.splits)
  have cnt: "length (filter ?Q ((shares d)[i := ?s'])) = length (filter ?Q (shares d))"
    using ib by (intro filter_update_same) simp_all
  have fr: "?s' = s\<lparr>permission := permission ?s', expiresAt := expiresAt ?s', isActive := True\<rparr>"
    by simp
  have pm: "permission ?s' = (case perm of Some p \<Rightarrow> p | None \<Rightarrow> permission s)"
    by simp
  have "\<exists>i s s'.
           i < length (shares d) \<and> shares d ! i = s
         \<and> share_file s = fileId \<and> sharedWith s = Some target \<and> shareType s = User
         \<and> (\<forall>k<i. \<not> (share_file (shares d ! k) = fileId
                        \<and> sharedWith (shares d ! k) = Some target
                        \<and> shareType (shares d ! k) = User))
         \<and> shareWithUser e d [] (Some u) fileId userId perm expires =
             (d\<lparr>shares := (shares d)[i := s']\<rparr>,
              Success 200 ''Share updated successfully'' (ShareData s'))
         \<and> s' = s\<lparr>permission := permission s', expiresAt := expiresAt s', isActive := True\<rparr>
         \<and> permission s' = (case perm of Some p \<Rightarrow> p | None \<Rightarrow> permission s)
         \<and> expiresAt s' =
             (case expires of
                None \<Rightarrow> expiresAt s
              | Some x \<Rightarrow>
                  (case newDate e x of
                     None \<Rightarrow> expiresAt s
                   | Some t \<Rightarrow> if x \<noteq> [] \<and> now e < t then Some t else expiresAt s))
         \<and> length (filter ?Q ((shares d)[i := s'])) = length (filter ?Q (shares d))"
    apply (rule exI[of _ i], rule exI[of _ s], rule exI[of _ ?s'])
    using ib first r fr pm ex' cnt by blast
  with False show ?thesis by simp
qed

text \<open>
  At the fixture with the revoked share: a re-grant with download permission and
  the expiration 1 January 2030 reactivates the share and replaces both fields.
\<close>

theorem regrant_updates_in_place_witness:
  "findById file_id 10 (files fx_revoked_db) = Some (0, fx_file) \<and> file_owner fx_file = 1
   \<and> castObjectId ''000000000000000000000002'' = Some 2
   \<and> ''000000000000000000000002'' \<noteq> ObjectId_toString 1
   \<and> fx_user_share\<lparr>isActive := False\<rparr> \<in> set (shares fx_revoked_db)
   \<and> shareWithUser fx_env fx_revoked_db [] (Some 1) 10 ''000000000000000000000002''
        (Some Download) (Some ''2030-01-01T00:00:00.000Z'') =
       (fx_revoked_db
          \<lparr>shares := [fx_user_share\<lparr>permission := Download, expiresAt := Some 1893456000000\<rparr>,
                      fx_link_share]\<rparr>,
        Success 200 ''Share updated successfully''
          (ShareData (fx_user_share\<lparr>permission := Download, expiresAt := Some 1893456000000\<rparr>)))"
proof -
  have h1: "findById file_id 10 (files fx_revoked_db) = Some (0, fx_file)"
    by (simp add: findById_def findOne_def fx_revoked_db_def fx_db_def fx_file_def)
  have h2: "file_owner fx_file = 1" by (simp add: fx_file_def)
  have h3: "castObjectId ''000000000000000000000002'' = Some 2" by (rule fx_cast_user2)
  have h4: "\<exists>s \<in> set (shares fx_revoked_db).
              share_file s = 10 \<and> sharedWith s = Some 2 \<and> shareType s = User"
    by (simp add: fx_revoked_db_def fx_db_def fx_user_share_def)
  have h5: "''000000000000000000000002'' \<noteq> ObjectId_toString 1"
    by (simp add: fx_ids)
  from regrant_updates_in_place[OF h1 h2 h3 h4, of fx_env
      "Some Download" "Some ''2030-01-01T00:00:00.000Z''"] h5
  obtain i s s' where
    i: "i < length (shares fx_revoked_db)" "shares fx_revoked_db ! i = s"
      "share_file s = 10 \<and> sharedWith s = Some 2 \<and> shareType s = User"
    and r: "shareWithUser fx_env fx_revoked_db [] (Some 1) 10 ''000000000000000000000002''
              (Some Download) (Some ''2030-01-01T00:00:00.000Z'') =
            (fx_revoked_db\<lparr>shares := (shares fx_revoked_db)[i := s']\<rparr>,
             Success 200 ''Share updated successfully'' (ShareData s'))"
    and s': "s' = s\<lparr>permission := permission s', expiresAt := expiresAt s', isActive := True\<rparr>"
      "permission s' = Download"
      "expiresAt s' =
         (case newDate fx_env ''2030-01-01T00:00:00.000Z'' of
            None \<Rightarrow> expiresAt s
          | Some t \<Rightarrow> if ''2030-01-01T00:00:00.000Z'' \<noteq> [] \<and> now fx_env < t then Some t
                      else expiresAt s)"
    by auto
  from i have i0: "i = 0"
    by (cases i) (auto simp: fx_revoked_db_def fx_db_def fx_link_share_def less_Suc_eq)
  with i have s: "s = fx_user_share\<lparr>isActive := False\<rparr>"
    by (simp add: fx_revoked_db_def fx_db_def)
  from s'(3) have e: "expiresAt s' = Some 1893456000000"
    by (simp add: fx_env_def fx_dates_def)
  from s' s e have "s' = fx_user_share\<lparr>permission := Download, expiresAt := Some 1893456000000\<rparr>"
    by (simp add: fx_user_share_def)
  with r i0 h1 h2 h3 h5 show ?thesis
    by (simp add: fx_revoked_db_def fx_db_def)
qed

text \<open>
  C4, as stated, fails: \<open>shareViaLink\<close> issues one token and never a second. When
  the token is already stored, \<open>Share.create\<close> throws on the unique index and the
  caller receives 500.
\<close>

theorem link_grant_collision_surfaced:
  "generateShareLink fx_env = ''3f2b8c1e9a4d4e6f8b7a5c0d1e2f3a4b''
   \<and> shareLink fx_link_share = Some (generateShareLink fx_env)
   \<and> fx_link_share \<in> set (shares fx_db)
   \<and> shareViaLink fx_env fx_db [] (Some 1) 10 (Some View) None =
        (fx_db, Failure 500 ''Failed to create share link'')"
  by (simp add: shareViaLink_def generateShareLink_def Share_create_def
        fx_env_def findById_def findOne_def Let_def fx_db_def fx_file_def fx_user_share_def
        fx_link_share_def)

text \<open>
  C4, amended. For the owner of the file, \<open>shareViaLink\<close> issues one token. If a
  stored share already carries it, the store is left unchanged and the answer is
  500; nothing is overwritten and nothing is retried. Otherwise exactly one new
  link share is appended, active, carrying that token, which no other stored share
  carries, and the answer is 201.
\<close>

theorem link_grant_fails_on_collision:
  assumes fnd: "findById file_id fileId (files d) = Some (j, f)"
    and own: "file_owner f = u"
  shows "if (\<exists>s \<in> set (shares d). shareLink s = Some (generateShareLink e))
         then shareViaLink e d [] (Some u) fileId perm expires =
                (d, Failure 500 ''Failed to create share link'')
         else (\<exists>s. shareViaLink e d [] (Some u) fileId perm expires =
                     (logAudit e (d\<lparr>shares := shares d @ [s], nextId := Suc (nextId d)\<rparr>)
                        u file_share_link (Some fileId) (Some (share_id s)),
                      Success 201 ''Share link created successfully''
                        (LinkData s (fullShareLink e (generateShareLink e))))
                 \<and> shareLink s = Some (generateShareLink e) \<and> shareType s = Link
                 \<and> share_file s = fileId \<and> share_owner s = u \<and> sharedWith s = None
                 \<and> isActive s
                 \<and> length (filter (\<lambda>x. shareLink x = shareLink s) (shares d @ [s])) = 1)"
proof (cases "\<exists>s \<in> set (shares d). shareLink s = Some (generateShareLink e)")
  case True
  then show ?thesis
    using fnd own by (simp add: shareViaLink_def Share_create_def Let_def)
next
  case False
  let ?s = "\<lparr>share_id = nextId d, share_file = fileId, share_owner = u, shareType = Link,
             sharedWith = None, shareLink = Some (generateShareLink e),
             permission = (case perm of Some p \<Rightarrow> p | None \<Rightarrow> View),
             expiresAt = parseExpiration e expires, isActive = True\<rparr>"
  have r: "shareViaLink e d [] (Some u) fileId perm expires =
             (logAudit e (d\<lparr>shares := shares d @ [?s], nextId := Suc (nextId d)\<rparr>)
                u file_share_link (Some fileId) (Some (share_id ?s)),
              Success 201 ''Share link created successfully''
                (LinkData ?s (fullShareLink e (generateShareLink e))))"
    using False fnd own by (simp add: shareViaLink_def Share_create_def Let_def)
  from False have "filter (\<lambda>x. shareLink x = Some (generateShareLink e)) (shares d) = []"
    by (simp add: filter_empty_conv)
  then have u: "length (filter (\<lambda>x. shareLink x = shareLink ?s) (shares d @ [?s])) = 1"
    by simp
  show ?thesis
    using False r u by (auto intro!: exI[of _ ?s])
qed

text \<open>
  Both branches at the fixtures: the collision in \<open>fx_db\<close>, the creation in
  \<open>fx_empty_db\<close>.
\<close>

theorem link_grant_fails_on_collision_witness:
  "findById file_id 10 (files fx_db) = Some (0, fx_file) \<and> file_owner fx_file = 1
   \<and> shareViaLink fx_env fx_db [] (Some 1) 10 (Some Download) None =
        (fx_db, Failure 500 ''Failed to create share link'')
   \<and> shareViaLink fx_env fx_empty_db [] (Some 1) 10 (Some Download) None =
        (fx_empty_db
           \<lparr>shares := [\<lparr>share_id = 22, share_file = 10, share_owner = 1, shareType = Link,
                         sharedWith = None,
                         shareLink = Some ''3f2b8c1e9a4d4e6f8b7a5c0d1e2f3a4b'',
                         permission = Download, expiresAt = None, isActive = True\<rparr>],
            auditlogs := [\<lparr>audit_user = 1, action = file_share_link, audit_file = Some 10,
                            audit_share = Some 22\<rparr>],
            nextId := 23\<rparr>,
         Success 201 ''Share link created successfully''
           (LinkData \<lparr>share_id = 22, share_file = 10, share_owner = 1, shareType = Link,
                       sharedWith = None,
                       shareLink = Some ''3f2b8c1e9a4d4e6f8b7a5c0d1e2f3a4b'',
                       permission = Download, expiresAt = None, isActive = True\<rparr>
              ''http://localhost:5173/shared/3f2b8c1e9a4d4e6f8b7a5c0d1e2f3a4b''))"
proof -
  have h1: "findById file_id 10 (files fx_db) = Some (0, fx_file)"
    by (simp add: findById_def findOne_def fx_db_def fx_file_def)
  have h2: "file_owner fx_file = 1" by (simp add: fx_file_def)
  have c: "\<exists>s \<in> set (shares fx_db). shareLink s = Some (generateShareLink fx_env)"
    by (simp add: fx_db_def fx_link_share_def generateShareLink_def fx_env_def)
  from link_grant_fails_on_collision[OF h1 h2, of fx_env "Some Download" None] c
  have a: "shareViaLink fx_env fx_db [] (Some 1) 10 (Some Download) None =
             (fx_db, Failure 500 ''Failed to create share link'')"
    by simp
  have b: "shareViaLink fx_env fx_empty_db [] (Some 1) 10 (Some Download) None =
        (fx_empty_db
           \<lparr>shares := [\<lparr>share_id = 22, share_file = 10, share_owner = 1, shareType = Link,
                         sharedWith = None,
                         shareLink = Some ''3f2b8c1e9a4d4e6f8b7a5c0d1e2f3a4b'',
                         permission = Download, expiresAt = None, isActive = True\<rparr>],
            auditlogs := [\<lparr>audit_user = 1, action = file_share_link, audit_file = Some 10,
                            audit_share = Some 22\<rparr>],
            nextId := 23\<rparr>,
         Success 201 ''Share link created successfully''
           (LinkData \<lparr>share_id = 22, share_file = 10, share_owner = 1, shareType = Link,
                       sharedWith = None,
                       shareLink = Some ''3f2b8c1e9a4d4e6f8b7a5c0d1e2f3a4b'',
                       permission = Download, expiresAt = None, isActive = True\<rparr>
              ''http://localhost:5173/shared/3f2b8c1e9a4d4e6f8b7a5c0d1e2f3a4b''))"
    by (simp add: shareViaLink_def generateShareLink_def Share_create_def logAudit_def
        fullShareLink_def parseExpiration_def
        fx_env_def findById_def findOne_def Let_def fx_empty_db_def fx_db_def fx_file_def)
  from h1 h2 a b show ?thesis by simp
qed

text \<open>
  C5. The update-in-place branch of \<open>shareWithUser\<close> returns before the call to
  \<open>logAudit\<close>. Re-granting the revoked share to user 2 succeeds with 200 and
  reactivates it, and the audit log stays empty; the fresh grant to user 3 writes
  its \<open>file_share_user\<close> entry.
\<close>

theorem regrant_emits_no_audit:
  "shareWithUser fx_env fx_revoked_db [] (Some 1) 10 ''000000000000000000000002'' (Some Download) None =
     (fx_revoked_db\<lparr>shares := [fx_user_share\<lparr>permission := Download\<rparr>, fx_link_share]\<rparr>,
      Success 200 ''Share updated successfully''
        (ShareData (fx_user_share\<lparr>permission := Download\<rparr>)))
   \<and> auditlogs (fx_revoked_db\<lparr>shares := [fx_user_share\<lparr>permission := Download\<rparr>, fx_link_share]\<rparr>) = []
   \<and> auditlogs (fst (shareWithUser fx_env fx_db [] (Some 1) 10 ''000000000000000000000003''
                       (Some Download) None)) =
       [\<lparr>audit_user = 1, action = file_share_user, audit_file = Some 10, audit_share = Some 22\<rparr>]"
  by (simp add: fx_ids shareWithUser_def shareWithUser_find_def shareWithUser_write_def
        parseExpiration_def fx_env_def Share_create_def logAudit_def fx_revoked_db_def
        findById_def findOne_def save_def Let_def fx_db_def fx_file_def fx_user_share_def
        fx_link_share_def)

text \<open>
  C8. \<open>updateShareExpiration\<close> by the share's owner answers 200 and writes back
  the found share with only its expiration replaced: the active flag and every
  other field are as before, as are all other shares and collections. A value
  that parses to an instant after the clock's reading is stored; an absent or
  empty value leaves the share without expiration, and a share without expiration
  is expired at no instant: neither for the helper, nor for the virtuals, nor for
  the store queries.
\<close>

theorem update_expiration_frame:
  assumes "findById share_id shareId (shares d) = Some (i, s)"
    and "share_owner s = u"
  shows "\<exists>s'. updateShareExpiration e d (Some u) shareId expires =
               (d\<lparr>shares := (shares d)[i := s']\<rparr>,
                Success 200 ''Share expiration updated'' (ShareData s'))
             \<and> i < length (shares d) \<and> shares d ! i = s
             \<and> s' = s\<lparr>expiresAt := expiresAt s'\<rparr>
             \<and> isActive s' = isActive s
             \<and> (expires = None \<or> expires = Some [] \<longrightarrow> expiresAt s' = None)
             \<and> (\<forall>x t. expires = Some x \<and> x \<noteq> [] \<and> newDate e x = Some t \<and> now e < t
                    \<longrightarrow> expiresAt s' = Some t)
             \<and> (expiresAt s' = None \<longrightarrow>
                  (\<forall>e'. \<not> isExpired e' (expiresAt s') \<and> \<not> virtual_isExpired e' s'
                        \<and> unexpiredQuery e' s' \<and> virtual_isValid e' s' = isActive s))"
proof -
  from assms(1) have i: "i < length (shares d)" "shares d ! i = s"
    using findOne_Some[of "\<lambda>x. share_id x = shareId" "shares d" i s]
    by (simp_all add: findById_def)
  let ?s' = "s\<lparr>expiresAt := parseExpiration e expires\<rparr>"
  have r: "updateShareExpiration e d (Some u) shareId expires =
             (d\<lparr>shares := (shares d)[i := ?s']\<rparr>,
              Success 200 ''Share expiration updated'' (ShareData ?s'))"
    using assms by (simp add: updateShareExpiration_def save_def Let_def)
  have n: "expires = None \<or> expires = Some [] \<longrightarrow> expiresAt ?s' = None"
    by (auto simp: parseExpiration_def)
  have w: "\<forall>x t. expires = Some x \<and> x \<noteq> [] \<and> newDate e x = Some t \<and> now e < t
              \<longrightarrow> expiresAt ?s' = Some t"
    by (auto simp: parseExpiration_def)
  have v: "expiresAt ?s' = None \<longrightarrow>
            (\<forall>e'. \<not> isExpired e' (expiresAt ?s') \<and> \<not> virtual_isExpired e' ?s'
                  \<and> unexpiredQuery e' ?s' \<and> virtual_isValid e' ?s' = isActive s)"
    by (simp add: isExpired_def virtual_isExpired_def unexpiredQuery_def virtual_isValid_def)
  show ?thesis
    apply (rule exI[of _ ?s'])
    using r i n w v by simp
qed

text \<open>
  At the fixture with the revoked share: the expiration is cleared and the share
  stays revoked.
\<close>

theorem update_expiration_frame_witness:
  "findById share_id 20 (shares fx_revoked_db) = Some (0, fx_user_share\<lparr>isActive := False\<rparr>)
   \<and> share_owner (fx_user_share\<lparr>isActive := False\<rparr>) = 1
   \<and> updateShareExpiration fx_env fx_revoked_db (Some 1) 20 None =
        (fx_revoked_db\<lparr>shares := [fx_user_share\<lparr>expiresAt := None, isActive := False\<rparr>, fx_link_share]\<rparr>,
         Success 200 ''Share expiration updated''
           (ShareData (fx_user_share\<lparr>expiresAt := None, isActive := False\<rparr>)))"
proof -
  let ?s = "fx_user_share\<lparr>isActive := False\<rparr>"
  have h1: "findById share_id 20 (shares fx_revoked_db) = Some (0, ?s)"
    by (simp add: findById_def findOne_def fx_revoked_db_def fx_user_share_def)
  have h2: "share_owner ?s = 1" by (simp add: fx_user_share_def)
  from update_expiration_frame[OF h1 h2, of fx_env None] obtain s' where
    r: "updateShareExpiration fx_env fx_revoked_db (Some 1) 20 None =
          (fx_revoked_db\<lparr>shares := (shares fx_revoked_db)[0 := s']\<rparr>,
           Success 200 ''Share expiration updated'' (ShareData s'))"
    and s: "s' = ?s\<lparr>expiresAt := expiresAt s'\<rparr>" and n: "expiresAt s' = None"
    by auto
  from s n have "s' = fx_user_share\<lparr>expiresAt := None, isActive := False\<rparr>"
    by (simp add: fx_user_share_def)
  with r h1 h2 show ?thesis by (simp add: fx_revoked_db_def)
qed

text \<open>
  C9. Two requests granting file 10 to user 2 on a store without shares, where
  both run \<open>Share.findOne\<close> before either writes: both lookups find nothing, both
  requests create a record and both answer 201. The store ends with two user
  shares for the same (file, target). No unique index covers
  (file, sharedWith, shareType), so \<open>Share.create\<close> accepts both.
\<close>

theorem concurrent_grants_duplicate_share:
  "shareWithUser_concurrent fx_env fx_empty_db (Some 1) 10 ''000000000000000000000002''
     (Some View) (Some Download) =
     (fx_empty_db
        \<lparr>shares :=
           [\<lparr>share_id = 22, share_file = 10, share_owner = 1, shareType = User,
             sharedWith = Some 2, shareLink = None, permission = View,
             expiresAt = None, isActive = True\<rparr>,
            \<lparr>share_id = 23, share_file = 10, share_owner = 1, shareType = User,
             sharedWith = Some 2, shareLink = None, permission = Download,
             expiresAt = None, isActive = True\<rparr>],
         auditlogs :=
           [\<lparr>audit_user = 1, action = file_share_user, audit_file = Some 10, audit_share = Some 22\<rparr>,
            \<lparr>audit_user = 1, action = file_share_user, audit_file = Some 10, audit_share = Some 23\<rparr>],
         nextId := 24\<rparr>,
      Success 201 ''File shared successfully''
        (ShareData \<lparr>share_id = 22, share_file = 10, share_owner = 1, shareType = User,
             sharedWith = Some 2, shareLink = None, permission = View,
             expiresAt = None, isActive = True\<rparr>),
      Success 201 ''File shared successfully''
        (ShareData \<lparr>share_id = 23, share_file = 10, share_owner = 1, shareType = User,
             sharedWith = Some 2, shareLink = None, permission = Download,
             expiresAt = None, isActive = True\<rparr>))
   \<and> length (filter (\<lambda>s. share_file s = 10 \<and> sharedWith s = Some 2 \<and> shareType s = User)
        (shares (fst (shareWithUser_concurrent fx_env fx_empty_db (Some 1) 10
                        ''000000000000000000000002'' (Some View) (Some Download))))) = 2"
  by (simp add: fx_ids shareWithUser_concurrent_def shareWithUser_find_def shareWithUser_write_def
        parseExpiration_def fx_env_def Share_create_def logAudit_def fx_empty_db_def
        findById_def findOne_def Let_def fx_db_def fx_file_def)



section \<open>Compression\<close>

lemma compressImage_result:
  assumes "fs filePath = Some orig" and "compressedPath \<noteq> filePath"
  shows "\<exists>fs' r. compressImage compressedPath sharpOut fs filePath mimeType = Some (fs', r)
     \<and> success r =
         (100 * 1024 \<le> length orig
          \<and> (mimeType = ''image/jpeg'' \<or> mimeType = ''image/jpg''
             \<or> mimeType = ''image/png'' \<or> mimeType = ''image/webp'')
          \<and> (\<exists>out. sharpOut = Some out \<and> length out < length orig))
     \<and> (if success r
         then (\<exists>out. sharpOut = Some out \<and> length out < length orig \<and> fs' filePath = Some out
                \<and> fs' compressedPath = None
                \<and> originalSize r = length orig \<and> compressedSize r = length out
                \<and> compressionRatio r = real (length out) / real (length orig)
                \<and> newPath r = Some filePath)
         else fs' filePath = Some orig \<and> originalSize r = length orig
              \<and> compressedSize r = length orig \<and> compressionRatio r = 1)"
  using assms
  by (cases sharpOut) (auto simp: compressImage_def notCompressed_def Let_def)

lemma createZipArchive_result:
  assumes "fs filePath = Some orig" and "zipPath \<noteq> filePath"
  shows "\<exists>fs' r. createZipArchive zipPath outcome fs filePath = Some (fs', r)
     \<and> success r = (\<exists>z. outcome = Closed z \<and> real (length z) < real (length orig) * 0.9)
     \<and> (if success r
         then (\<exists>z. outcome = Closed z \<and> real (length z) < real (length orig) * 0.9
                \<and> fs' zipPath = Some z \<and> fs' filePath = None
                \<and> originalSize r = length orig \<and> compressedSize r = length z
                \<and> compressionRatio r = real (length z) / real (length orig)
                \<and> newPath r = Some zipPath)
         else fs' filePath = Some orig \<and> originalSize r = length orig
              \<and> compressedSize r = length orig \<and> compressionRatio r = 1)"
  using assms
  by (cases outcome) (auto simp: createZipArchive_def notCompressed_def Let_def)

lemma compressFile_is_compressImage:
  assumes "fs filePath = Some orig"
  shows "compressFile compressedPath sharpOut fs filePath mimeType =
         compressImage compressedPath sharpOut fs filePath mimeType"
proof (cases "take 6 mimeType = ''image/''")
  case True
  then show ?thesis by (simp add: compressFile_def)
next
  case False
  then have "\<not> (mimeType = ''image/jpeg'' \<or> mimeType = ''image/jpg''
                \<or> mimeType = ''image/png'' \<or> mimeType = ''image/webp'')"
    by auto
  with False assms show ?thesis
    by (simp add: compressFile_def compressImage_def Let_def)
qed

text \<open>
  What holds when the temporary path differs from the file's own path (always so
  for \<open>compressImage\<close>, whose temporary name ends in \<open>_compressed\<close>):
  \<open>compressImage\<close> (and \<open>compressFile\<close>, which agrees with it) returns
  \<open>success = true\<close> exactly when the file has at least 100 KiB, the type is one
  of the four supported, and the transform produced an output strictly smaller than
  the original; the output then stands at the file's path. \<open>createZipArchive\<close>
  returns \<open>success = true\<close> exactly when the archive closed with fewer bytes
  than 0.9 times the original; the archive then stands at \<open>zipPath\<close>. In every
  other case, a failed transform included, the original bytes are still at the
  file's path and the result has \<open>success = false\<close>, \<open>compressedSize\<close> and
  \<open>originalSize\<close> both the original size, and ratio 1.
\<close>

lemma compression_keeps_only_smaller:
  assumes "fs filePath = Some orig"
    and "compressedPath \<noteq> filePath"
    and "zipPath \<noteq> filePath"
  shows "(\<exists>fs' r. compressImage compressedPath sharpOut fs filePath mimeType = Some (fs', r)
           \<and> compressFile compressedPath sharpOut fs filePath mimeType = Some (fs', r)
           \<and> success r =
               (100 * 1024 \<le> length orig
                \<and> (mimeType = ''image/jpeg'' \<or> mimeType = ''image/jpg''
                   \<or> mimeType = ''image/png'' \<or> mimeType = ''image/webp'')
                \<and> (\<exists>out. sharpOut = Some out \<and> length out < length orig))
           \<and> (if success r
               then (\<exists>out. sharpOut = Some out \<and> length out < length orig
                      \<and> fs' filePath = Some out \<and> fs' compressedPath = None
                      \<and> originalSize r = length orig \<and> compressedSize r = length out
                      \<and> compressionRatio r = real (length out) / real (length orig)
                      \<and> newPath r = Some filePath)
               else fs' filePath = Some orig \<and> originalSize r = length orig
                    \<and> compressedSize r = length orig \<and> compressionRatio r = 1))
       \<and> (\<exists>fs' r. createZipArchive zipPath outcome fs filePath = Some (fs', r)
           \<and> success r = (\<exists>z. outcome = Closed z \<and> real (length z) < real (length orig) * 0.9)
           \<and> (if success r
               then (\<exists>z. outcome = Closed z \<and> real (length z) < real (length orig) * 0.9
                      \<and> fs' zipPath = Some z \<and> fs' filePath = None
                      \<and> originalSize r = length orig \<and> compressedSize r = length z
                      \<and> compressionRatio r = real (length z) / real (length orig)
                      \<and> newPath r = Some zipPath)
               else fs' filePath = Some orig \<and> originalSize r = length orig
                    \<and> compressedSize r = length orig \<and> compressionRatio r = 1))"
proof (rule conjI)
  from compressImage_result[where fs = fs and filePath = filePath and orig = orig
      and compressedPath = compressedPath and sharpOut = sharpOut and mimeType = mimeType,
      OF assms(1,2)]
  show "\<exists>fs' r. compressImage compressedPath sharpOut fs filePath mimeType = Some (fs', r)
           \<and> compressFile compressedPath sharpOut fs filePath mimeType = Some (fs', r)
           \<and> success r =
               (100 * 1024 \<le> length orig
                \<and> (mimeType = ''image/jpeg'' \<or> mimeType = ''image/jpg''
                   \<or> mimeType = ''image/png'' \<or> mimeType = ''image/webp'')
                \<and> (\<exists>out. sharpOut = Some out \<and> length out < length orig))
           \<and> (if success r
               then (\<exists>out. sharpOut = Some out \<and> length out < length orig
                      \<and> fs' filePath = Some out \<and> fs' compressedPath = None
                      \<and> originalSize r = length orig \<and> compressedSize r = length out
                      \<and> compressionRatio r = real (length out) / real (length orig)
                      \<and> newPath r = Some filePath)
               else fs' filePath = Some orig \<and> originalSize r = length orig
                    \<and> compressedSize r = length orig \<and> compressionRatio r = 1)"
    unfolding compressFile_is_compressImage[where fs = fs and filePath = filePath and orig = orig,
        OF assms(1)] by blast
next
  from createZipArchive_result[where fs = fs and filePath = filePath and orig = orig
      and zipPath = zipPath and outcome = outcome, OF assms(1,3)]
  show "\<exists>fs' r. createZipArchive zipPath outcome fs filePath = Some (fs', r)
           \<and> success r = (\<exists>z. outcome = Closed z \<and> real (length z) < real (length orig) * 0.9)
           \<and> (if success r
               then (\<exists>z. outcome = Closed z \<and> real (length z) < real (length orig) * 0.9
                      \<and> fs' zipPath = Some z \<and> fs' filePath = None
                      \<and> originalSize r = length orig \<and> compressedSize r = length z
                      \<and> compressionRatio r = real (length z) / real (length orig)
                      \<and> newPath r = Some zipPath)
               else fs' filePath = Some orig \<and> originalSize r = length orig
                    \<and> compressedSize r = length orig \<and> compressionRatio r = 1)"
    by blast
qed

text \<open>
  A 200 KiB PNG compressed to 1000 bytes is replaced; a 190000-byte archive of it
  (more than 90%) is discarded.
\<close>

lemma compression_keeps_only_smaller_example:
  "fx_fs ''uploads/p.png'' = Some fx_orig
   \<and> ''uploads/p_compressed.png'' \<noteq> ''uploads/p.png''
   \<and> ''uploads/p.zip'' \<noteq> ''uploads/p.png''
   \<and> length fx_orig = 204800 \<and> length fx_small = 1000 \<and> length fx_zip = 190000
   \<and> (\<exists>fs' r. compressFile ''uploads/p_compressed.png'' (Some fx_small) fx_fs
                  ''uploads/p.png'' ''image/png'' = Some (fs', r)
         \<and> success r \<and> fs' ''uploads/p.png'' = Some fx_small
         \<and> originalSize r = 204800 \<and> compressedSize r = 1000)
   \<and> (\<exists>fs' r. createZipArchive ''uploads/p.zip'' (Closed fx_zip) fx_fs ''uploads/p.png''
                  = Some (fs', r)
         \<and> \<not> success r \<and> fs' ''uploads/p.png'' = Some fx_orig
         \<and> originalSize r = 204800 \<and> compressedSize r = 204800 \<and> compressionRatio r = 1)"
proof -
  have h1: "fx_fs ''uploads/p.png'' = Some fx_orig" by (simp add: fx_fs_def)
  have h2: "''uploads/p_compressed.png'' \<noteq> ''uploads/p.png''" by simp
  have h3: "''uploads/p.zip'' \<noteq> ''uploads/p.png''" by simp
  have len: "length fx_orig = 204800" "length fx_small = 1000" "length fx_zip = 190000"
    by (simp_all add: fx_orig_def fx_small_def fx_zip_def)
  note t = compression_keeps_only_smaller[where fs = fx_fs and filePath = "''uploads/p.png''" and orig = fx_orig
      and compressedPath = "''uploads/p_compressed.png''" and zipPath = "''uploads/p.zip''"
      and sharpOut = "Some fx_small" and mimeType = "''image/png''"
      and outcome = "Closed fx_zip", OF h1 h2 h3]
  from t[THEN conjunct1] have a:
    "\<exists>fs' r. compressFile ''uploads/p_compressed.png'' (Some fx_small) fx_fs
                  ''uploads/p.png'' ''image/png'' = Some (fs', r)
         \<and> success r \<and> fs' ''uploads/p.png'' = Some fx_small
         \<and> originalSize r = 204800 \<and> compressedSize r = 1000"
    by (auto simp: len)
  from t[THEN conjunct2] have b:
    "\<exists>fs' r. createZipArchive ''uploads/p.zip'' (Closed fx_zip) fx_fs ''uploads/p.png''
                  = Some (fs', r)
         \<and> \<not> success r \<and> fs' ''uploads/p.png'' = Some fx_orig
         \<and> originalSize r = 204800 \<and> compressedSize r = 204800 \<and> compressionRatio r = 1"
    by (auto simp: len)
  from h1 h2 h3 len a b show ?thesis by blast
qed


end
